theory Spec2Isabelle
  imports Main
begin

section \<open>Askdemia chat backend (src/backend.py)\<close>

text \<open>
  A shallow embedding of the request handlers of \<^verbatim>\<open>src/backend.py\<close>: the keyword
  routing of \<^verbatim>\<open>chat\<close>, the task handed to the agent crew, and the three handlers that
  read and write the message collection.

  Strings are byte lists (UTF-8). The agent crew and the document store are external
  services: the crew is a function from the crew object to either an exception or an
  output, the store is a list of documents in insertion order, and a store call takes
  the condition of the connection during that call (\<open>None\<close>: reachable, \<open>Some e\<close>: the
  driver raises \<open>e\<close>).
\<close>

subsection \<open>Python strings\<close>

text \<open>
  \<^verbatim>\<open>str.lower()\<close> on ASCII text: the letters A to Z (codes 65 to 90) move to a to z,
  every other byte stays. Python also folds letters outside ASCII; the results below
  speak of the lower-cased text and do not depend on how such letters fold.
\<close>

definition char_lower :: "char \<Rightarrow> char" where
  "char_lower c =
     (let n = (of_char c :: nat) in if 65 \<le> n \<and> n \<le> 90 then char_of (n + 32) else c)"

definition str_lower :: "string \<Rightarrow> string" where
  "str_lower s = map char_lower s"

text \<open>\<^verbatim>\<open>keyword in user_input\<close>: the keyword occurs as a contiguous run of the text.\<close>

fun starts_with :: "string \<Rightarrow> string \<Rightarrow> bool" where
  "starts_with [] s = True"
| "starts_with (k # ks) [] = False"
| "starts_with (k # ks) (c # cs) = (k = c \<and> starts_with ks cs)"

fun str_contains :: "string \<Rightarrow> string \<Rightarrow> bool" where
  "str_contains keyword [] = (keyword = [])"
| "str_contains keyword (c # cs) = (starts_with keyword (c # cs) \<or> str_contains keyword cs)"

subsection \<open>Agents\<close>

text \<open>
  The keyword arguments of \<^verbatim>\<open>Agent(...)\<close>; \<open>memory\<close> and \<open>verbose\<close> are \<open>None\<close> where the
  call does not give them. Every agent is built on the same \<^verbatim>\<open>llm\<close> object, recorded by
  its model name.
\<close>

record agent =
  name :: string
  role :: string
  goal :: string
  backstory :: string
  llm :: string
  memory :: "bool option"
  verbose :: "bool option"

definition llm_model :: string where
  "llm_model = ''gemini/gemini-1.5-flash''"

definition chatbot_agent :: agent where
  "chatbot_agent = \<lparr>
     name = ''Study Assistant'',
     role = ''Conversational AI'',
     goal = ''Assist students with study planning, scheduling, and stress management.'',
     backstory = ''Once a virtual assistant designed for productivity hacks, the Study Assistant evolved into a deeply empathetic and organized AI, tailored to support students in creating effective study routines. With experience in balancing workload, time management, and well-being, this assistant is your go-to guide for achieving academic success with a clear plan.'',
     llm = llm_model,
     memory = Some True,
     verbose = Some True \<rparr>"

definition task_manager :: agent where
  "task_manager = \<lparr>
     name = ''Task Manager'',
     role = ''Task & Assignment Tracker'',
     goal = ''Monitor assignments, deadlines, and tasks.'',
     backstory = ''Built as a digital academic planner, the Task Manager is laser-focused on deadlines, due dates, and deliverables. With a sharp eye for detail and a structured mindset, it keeps students updated on assignments, ensures nothing is forgotten, and promotes timely submissions through gentle reminders and progress tracking.'',
     llm = llm_model,
     memory = None,
     verbose = None \<rparr>"

definition stress_predictor :: agent where
  "stress_predictor = \<lparr>
     name = ''Stress Predictor'',
     role = ''Workload & Stress Analyzer'',
     goal = ''Analyze student workload and predict stress levels.'',
     backstory = ''Developed from research into student mental health, the Stress Predictor is trained to identify signs of academic burnout, overload, and imbalance. It analyzes study patterns, workload, and emotional cues to offer actionable feedback and suggestions that promote mental wellness and productivity harmony.'',
     llm = llm_model,
     memory = None,
     verbose = None \<rparr>"

definition adaptive_scheduler :: agent where
  "adaptive_scheduler = \<lparr>
     name = ''Adaptive Scheduler'',
     role = ''Smart Study Planner'',
     goal = ''Modify study plans based on workload and stress levels.'',
     backstory = ''Created as a dynamic planning engine, the Adaptive Scheduler learns from your performance and stress signals to update your study timetable in real time. It'' @ [CHR 0xE2, CHR 0x80, CHR 0x99] @ ''s like having a personal assistant who not only plans but also adapts to your needs, ensuring you're always productive without being overwhelmed.'',
     llm = llm_model,
     memory = None,
     verbose = None \<rparr>"

definition teacher_agent :: agent where
  "teacher_agent = \<lparr>
     name = ''Teacher Bot'',
     role = ''Academic Concept Explainer'',
     goal = ''Explain complex concepts in simple terms.'',
     backstory = ''Inspired by the world's best educators, Teacher Bot is a patient and knowledgeable AI tutor designed to break down complex concepts into simple, digestible explanations. Whether it'' @ [CHR 0xE2, CHR 0x80, CHR 0x99] @ ''s advanced math or abstract theory, it teaches in a way that makes learning approachable and enjoyable.'',
     llm = llm_model,
     memory = None,
     verbose = Some True \<rparr>"

definition motivator_agent :: agent where
  "motivator_agent = \<lparr>
     name = ''Motivator'',
     role = ''Positive Reinforcement Bot'',
     goal = ''Encourage and motivate students with uplifting responses.'',
     backstory = ''Cheerful, energetic, and always optimistic, the Motivator was created to lift spirits and restore focus during tough study days. Drawing from psychology and positive reinforcement techniques, it delivers encouragement, affirmations, and pep talks to keep students moving forward with confidence.'',
     llm = llm_model,
     memory = None,
     verbose = Some True \<rparr>"

subsection \<open>Requests, tasks and crews\<close>

record chat_request =
  user_id :: string
  message :: string

record task =
  description :: string
  task_agent :: agent
  expected_output :: string

record crew =
  agents :: "agent list"
  tasks :: "task list"

text \<open>
  The \<^verbatim>\<open>if\<close>/\<^verbatim>\<open>elif\<close> chain of \<^verbatim>\<open>chat\<close>: the keyword tests read the lower-cased
  message, the description embeds \<^verbatim>\<open>request.message\<close> itself.
\<close>

definition chat_route :: "chat_request \<Rightarrow> agent \<times> string \<times> string" where
  "chat_route request =
     (let user_input = str_lower (message request) in
      if list_ex (\<lambda>keyword. str_contains keyword user_input)
           [''schedule'', ''plan'', ''study plan''] then
        (chatbot_agent,
         ''Create a study schedule based on this request: '' @ message request,
         ''A well-structured study plan.'')
      else if list_ex (\<lambda>keyword. str_contains keyword user_input)
           [''assignment'', ''deadline'', ''due'', ''task''] then
        (task_manager,
         ''Check for pending assignments based on this request: '' @ message request,
         ''A list of pending assignments.'')
      else if list_ex (\<lambda>keyword. str_contains keyword user_input)
           [''stress'', ''overwork'', ''burnout'', ''overwhelm''] then
        (stress_predictor,
         ''Analyze workload and predict stress levels based on this request: '' @ message request,
         ''A stress level assessment.'')
      else if list_ex (\<lambda>keyword. str_contains keyword user_input)
           [''explain'', ''concept'', ''definition'', ''theory'', ''understand''] then
        (teacher_agent,
         ''Explain this academic concept: '' @ message request,
         ''A clear and concise explanation of the topic.'')
      else if list_ex (\<lambda>keyword. str_contains keyword user_input)
           [''motivate'', ''encourage'', ''feeling low'', ''positive'', ''inspire''] then
        (motivator_agent,
         ''Give an uplifting and positive message for this request: '' @ message request,
         ''A motivating and cheerful response.'')
      else
        (chatbot_agent,
         ''Respond to this student query: '' @ message request,
         ''A helpful response.''))"

definition chat_task :: "chat_request \<Rightarrow> task" where
  "chat_task request =
     (case chat_route request of
        (agent, description', expected_output') \<Rightarrow>
          \<lparr>description = description', task_agent = agent, expected_output = expected_output'\<rparr>)"

definition chat_crew :: "chat_request \<Rightarrow> crew" where
  "chat_crew request =
     (let current_task = chat_task request
      in \<lparr>agents = [task_agent current_task], tasks = [current_task]\<rparr>)"

subsection \<open>The message collection\<close>

datatype bson = Str string | ObjectId nat

type_synonym document = "(string \<times> bson) list"

record collection =
  docs :: "document list"
  next_oid :: nat

datatype py_exception = PyException (str: string)

datatype http_exception = HTTPException (status_code: nat) (detail: string)

definition empty_collection :: collection where
  "empty_collection = \<lparr>docs = [], next_oid = 0\<rparr>"

text \<open>A query document matches a stored one that has each of its fields with the same value.\<close>

definition matches :: "document \<Rightarrow> document \<Rightarrow> bool" where
  "matches query d = list_all (\<lambda>(k, v). map_of d k = Some v) query"

text \<open>
  The driver gives a document without \<^verbatim>\<open>_id\<close> a fresh one, stored as its first field.
  A call that raises leaves the collection as it was; a batch cut off half way is not
  modelled.
\<close>

fun assign_ids :: "nat \<Rightarrow> document list \<Rightarrow> document list" where
  "assign_ids n [] = []"
| "assign_ids n (d # ds) =
     (if map_of d ''_id'' = None
      then ((''_id'', ObjectId n) # d) # assign_ids (Suc n) ds
      else d # assign_ids n ds)"

definition insert_many ::
  "py_exception option \<Rightarrow> collection \<Rightarrow> document list \<Rightarrow> py_exception + collection" where
  "insert_many fault coll ds =
     (case fault of
        Some e \<Rightarrow> Inl e
      | None \<Rightarrow>
          Inr \<lparr>docs = docs coll @ assign_ids (next_oid coll) ds,
               next_oid = next_oid coll + length ds\<rparr>)"

text \<open>
  \<^verbatim>\<open>find(query, projection)\<close> with an excluding projection (\<^verbatim>\<open>{"_id": 0}\<close> is
  \<open>[''_id'']\<close>): the matching documents in stored order, without the excluded fields.
\<close>

definition find_docs ::
  "py_exception option \<Rightarrow> collection \<Rightarrow> document \<Rightarrow> string list \<Rightarrow> py_exception + document list" where
  "find_docs fault coll query excluded =
     (case fault of
        Some e \<Rightarrow> Inl e
      | None \<Rightarrow>
          Inr (map (filter (\<lambda>(k, v). k \<notin> set excluded)) (filter (matches query) (docs coll))))"

definition delete_many ::
  "py_exception option \<Rightarrow> collection \<Rightarrow> document \<Rightarrow> py_exception + (nat \<times> collection)" where
  "delete_many fault coll query =
     (case fault of
        Some e \<Rightarrow> Inl e
      | None \<Rightarrow>
          Inr (length (filter (matches query) (docs coll)),
               coll\<lparr>docs := filter (\<lambda>d. \<not> matches query d) (docs coll)\<rparr>))"

subsection \<open>The handlers\<close>

record crew_output =
  raw :: string

record chat_response =
  response :: string

record delete_response =
  delete_message :: string
  deleted_count :: nat

record history_response =
  history_user_id :: string
  messages :: "document list"

definition delete_chat_history ::
  "py_exception option \<Rightarrow> collection \<Rightarrow> string \<Rightarrow> (http_exception + delete_response) \<times> collection" where
  "delete_chat_history fault coll uid =
     (case delete_many fault coll [(''user_id'', Str uid)] of
        Inr (n, coll') \<Rightarrow>
          (Inr \<lparr>delete_message = ''Chat history deleted successfully.'', deleted_count = n\<rparr>, coll')
      | Inl e \<Rightarrow> (Inl (HTTPException 500 (str e)), coll))"

text \<open>
  \<^verbatim>\<open>chat\<close>: \<open>kickoff\<close> is the crew run (\<^verbatim>\<open>crew.kickoff_async()\<close>); both the run and the
  insert are inside the \<^verbatim>\<open>try\<close>, and either exception becomes a 500.
\<close>

definition chat ::
  "(crew \<Rightarrow> py_exception + crew_output) \<Rightarrow> py_exception option \<Rightarrow> collection \<Rightarrow> chat_request
     \<Rightarrow> (http_exception + chat_response) \<times> collection" where
  "chat kickoff fault coll request =
     (case kickoff (chat_crew request) of
        Inl e \<Rightarrow> (Inl (HTTPException 500 (str e)), coll)
      | Inr out \<Rightarrow>
          (let bot_response = raw out in
           case insert_many fault coll
                  [[(''user_id'', Str (user_id request)), (''role'', Str ''user''),
                    (''text'', Str (message request))],
                   [(''user_id'', Str (user_id request)), (''role'', Str ''bot''),
                    (''text'', Str bot_response)]] of
             Inl e \<Rightarrow> (Inl (HTTPException 500 (str e)), coll)
           | Inr coll' \<Rightarrow> (Inr \<lparr>response = bot_response\<rparr>, coll')))"

definition get_chat_history ::
  "py_exception option \<Rightarrow> collection \<Rightarrow> string \<Rightarrow> http_exception + history_response" where
  "get_chat_history fault coll uid =
     (case find_docs fault coll [(''user_id'', Str uid)] [''_id''] of
        Inr ms \<Rightarrow> Inr \<lparr>history_user_id = uid, messages = ms\<rparr>
      | Inl e \<Rightarrow> Inl (HTTPException 500 (str e)))"

section \<open>The routing contract\<close>

text \<open>
  The classifier as the specification words it: five categories in a fixed priority
  order, each with a set of keywords; a category matches a text when one of its keywords
  is a substring of it, and the first matching category wins. The keyword sets, agents,
  instruction templates and expected-output strings are those of the five branches of
  \<^verbatim>\<open>chat\<close>, and \<open>None\<close> stands for its \<^verbatim>\<open>else\<close> branch.
\<close>

definition is_substring :: "string \<Rightarrow> string \<Rightarrow> bool" where
  "is_substring keyword s \<longleftrightarrow> (\<exists>pre post. s = pre @ keyword @ post)"

datatype category = StudyPlan | AssignmentDeadline | StressBurnout | ConceptExplain | MotivateEncourage

definition priority_order :: "category list" where
  "priority_order = [StudyPlan, AssignmentDeadline, StressBurnout, ConceptExplain, MotivateEncourage]"

fun category_keywords :: "category \<Rightarrow> string list" where
  "category_keywords StudyPlan = [''schedule'', ''plan'', ''study plan'']"
| "category_keywords AssignmentDeadline = [''assignment'', ''deadline'', ''due'', ''task'']"
| "category_keywords StressBurnout = [''stress'', ''overwork'', ''burnout'', ''overwhelm'']"
| "category_keywords ConceptExplain = [''explain'', ''concept'', ''definition'', ''theory'', ''understand'']"
| "category_keywords MotivateEncourage = [''motivate'', ''encourage'', ''feeling low'', ''positive'', ''inspire'']"

definition category_matches :: "string \<Rightarrow> category \<Rightarrow> bool" where
  "category_matches text c \<longleftrightarrow> (\<exists>keyword \<in> set (category_keywords c). is_substring keyword text)"

definition spec_classify :: "string \<Rightarrow> category option" where
  "spec_classify text = find (category_matches text) priority_order"

fun profile :: "category option \<Rightarrow> agent" where
  "profile (Some StudyPlan) = chatbot_agent"
| "profile (Some AssignmentDeadline) = task_manager"
| "profile (Some StressBurnout) = stress_predictor"
| "profile (Some ConceptExplain) = teacher_agent"
| "profile (Some MotivateEncourage) = motivator_agent"
| "profile None = chatbot_agent"

fun template :: "category option \<Rightarrow> string" where
  "template (Some StudyPlan) = ''Create a study schedule based on this request: ''"
| "template (Some AssignmentDeadline) = ''Check for pending assignments based on this request: ''"
| "template (Some StressBurnout) =
     ''Analyze workload and predict stress levels based on this request: ''"
| "template (Some ConceptExplain) = ''Explain this academic concept: ''"
| "template (Some MotivateEncourage) =
     ''Give an uplifting and positive message for this request: ''"
| "template None = ''Respond to this student query: ''"

fun expected :: "category option \<Rightarrow> string" where
  "expected (Some StudyPlan) = ''A well-structured study plan.''"
| "expected (Some AssignmentDeadline) = ''A list of pending assignments.''"
| "expected (Some StressBurnout) = ''A stress level assessment.''"
| "expected (Some ConceptExplain) = ''A clear and concise explanation of the topic.''"
| "expected (Some MotivateEncourage) = ''A motivating and cheerful response.''"
| "expected None = ''A helpful response.''"

definition spec_handler :: "category option \<Rightarrow> string \<Rightarrow> agent \<times> string \<times> string" where
  "spec_handler c m = (profile c, template c @ m, expected c)"

subsection \<open>Crew runs and collections used as examples\<close>

text \<open>A crew run that answers \<open>t\<close> whatever the crew, and one that raises \<open>e\<close>.\<close>

definition fixed_reply :: "string \<Rightarrow> crew \<Rightarrow> py_exception + crew_output" where
  "fixed_reply t c = Inr \<lparr>raw = t\<rparr>"

definition failing_run :: "string \<Rightarrow> crew \<Rightarrow> py_exception + crew_output" where
  "failing_run e c = Inl (PyException e)"

text \<open>
  The documents \<^verbatim>\<open>chat\<close> writes have the fields \<^verbatim>\<open>_id\<close>, \<^verbatim>\<open>user_id\<close>, \<^verbatim>\<open>role\<close> and
  \<^verbatim>\<open>text\<close>, in this order. A collection is well formed when all its documents do.
\<close>

definition wf_doc :: "document \<Rightarrow> bool" where
  "wf_doc d \<longleftrightarrow> map fst d = [''_id'', ''user_id'', ''role'', ''text'']"

definition wf_collection :: "collection \<Rightarrow> bool" where
  "wf_collection coll \<longleftrightarrow> list_all wf_doc (docs coll)"

text \<open>The collection after one exchange of user \<open>u1\<close> and one of user \<open>u2\<close>.\<close>

definition sample_collection :: collection where
  "sample_collection =
     \<lparr>docs = [[(''_id'', ObjectId 0), (''user_id'', Str ''u1''), (''role'', Str ''user''),
                (''text'', Str ''hi'')],
               [(''_id'', ObjectId 1), (''user_id'', Str ''u1''), (''role'', Str ''bot''),
                (''text'', Str ''hello'')],
               [(''_id'', ObjectId 2), (''user_id'', Str ''u2''), (''role'', Str ''user''),
                (''text'', Str ''plan my week'')],
               [(''_id'', ObjectId 3), (''user_id'', Str ''u2''), (''role'', Str ''bot''),
                (''text'', Str ''Here is a plan.'')]],
       next_oid = 4\<rparr>"

section \<open>Substring test and routing\<close>

lemma starts_with_iff: "starts_with kw s \<longleftrightarrow> (\<exists>post. s = kw @ post)"
  by (induction kw s rule: starts_with.induct) auto

lemma str_contains_iff: "str_contains kw s \<longleftrightarrow> is_substring kw s"
proof (induction s)
  case Nil
  show ?case by (auto simp: is_substring_def)
next
  case (Cons c cs)
  have "is_substring kw (c # cs) \<longleftrightarrow> (\<exists>post. c # cs = kw @ post) \<or> is_substring kw cs"
    unfolding is_substring_def
  proof
    assume "\<exists>pre post. c # cs = pre @ kw @ post"
    then obtain pre post where eq: "c # cs = pre @ kw @ post" by blast
    show "(\<exists>post. c # cs = kw @ post) \<or> (\<exists>pre post. cs = pre @ kw @ post)"
    proof (cases pre)
      case Nil
      with eq show ?thesis by auto
    next
      case (Cons p ps)
      with eq have "cs = ps @ kw @ post" by simp
      then show ?thesis by blast
    qed
  next
    assume "(\<exists>post. c # cs = kw @ post) \<or> (\<exists>pre post. cs = pre @ kw @ post)"
    then show "\<exists>pre post. c # cs = pre @ kw @ post"
    proof
      assume "\<exists>post. c # cs = kw @ post"
      then obtain post where "c # cs = [] @ kw @ post" by auto
      then show ?thesis by blast
    next
      assume "\<exists>pre post. cs = pre @ kw @ post"
      then obtain pre post where "c # cs = (c # pre) @ kw @ post" by auto
      then show ?thesis by blast
    qed
  qed
  with Cons show ?case by (simp add: starts_with_iff)
qed

lemma chat_route_spec_classify:
  "chat_route request = spec_handler (spec_classify (str_lower (message request))) (message request)"
  by (simp add: chat_route_def spec_classify_def priority_order_def category_matches_def
        str_contains_iff Let_def spec_handler_def)

lemma category_matches_code:
  "category_matches text c \<longleftrightarrow> list_ex (\<lambda>keyword. str_contains keyword text) (category_keywords c)"
  by (simp add: category_matches_def list_ex_iff str_contains_iff)

lemma lower_plan: "str_lower ''plan my deadline'' = ''plan my deadline''"
  by code_simp

lemma lower_Plan: "str_lower ''Plan my DEADLINE'' = ''plan my deadline''"
  by code_simp

text \<open>
  C1. For every message the branch taken by \<^verbatim>\<open>chat\<close> is the handler of the first category,
  in the order study/plan, assignment/deadline, stress/burnout, concept/explain,
  motivate/encourage, one of whose keywords is a substring of the lower-cased message
  (the fallback when there is none). The message \<open>plan my deadline\<close> holds a study-plan
  keyword and an assignment keyword, and is routed to the study-plan handler.
\<close>

theorem chat_priority_order:
  "chat_route request = spec_handler (spec_classify (str_lower (message request))) (message request)
   \<and> category_matches (str_lower ''plan my deadline'') StudyPlan
   \<and> category_matches (str_lower ''plan my deadline'') AssignmentDeadline
   \<and> chat_route \<lparr>user_id = uid, message = ''plan my deadline''\<rparr> =
       (chatbot_agent, ''Create a study schedule based on this request: plan my deadline'',
        ''A well-structured study plan.'')"
  by (simp add: chat_route_spec_classify lower_plan category_matches_code spec_classify_def
        priority_order_def spec_handler_def)

theorem chat_priority_order_witness:
  "spec_handler (spec_classify (str_lower ''Plan my DEADLINE'')) ''Plan my DEADLINE'' =
     (chatbot_agent, ''Create a study schedule based on this request: Plan my DEADLINE'',
      ''A well-structured study plan.'')"
  using chat_priority_order [of "\<lparr>user_id = ''u1'', message = ''Plan my DEADLINE''\<rparr>" "''u1''"]
  by (simp add: chat_route_def lower_Plan)

lemma lower_hello: "str_lower ''hello there'' = ''hello there''"
  by code_simp

lemma lower_explain: "str_lower ''Explain ENTROPY'' = ''explain entropy''"
  by code_simp

text \<open>
  C4. Routing is a total function with one result for every message. When no keyword of
  any category is a substring of the lower-cased message, the result is the fallback
  handler; the empty message is such a message.
\<close>

theorem chat_fallback_when_no_keyword:
  "((\<forall>c. \<not> category_matches (str_lower (message request)) c) \<longrightarrow>
      chat_route request =
        (chatbot_agent, ''Respond to this student query: '' @ message request,
         ''A helpful response.''))
   \<and> chat_route \<lparr>user_id = uid, message = ''''\<rparr> =
        (chatbot_agent, ''Respond to this student query: '', ''A helpful response.'')"
proof -
  have "find (category_matches t) priority_order = None"
    if "\<forall>c. \<not> category_matches t c" for t
    using that by (simp add: find_None_iff)
  then have "chat_route request = spec_handler None (message request)"
    if "\<forall>c. \<not> category_matches (str_lower (message request)) c"
    using that by (simp add: chat_route_spec_classify spec_classify_def)
  moreover have "chat_route \<lparr>user_id = uid, message = ''''\<rparr> =
        (chatbot_agent, ''Respond to this student query: '', ''A helpful response.'')"
    by (simp add: chat_route_def str_lower_def)
  ultimately show ?thesis by (simp add: spec_handler_def)
qed

theorem chat_fallback_when_no_keyword_witness:
  "(\<forall>c. \<not> category_matches (str_lower ''hello there'') c)
   \<and> chat_route \<lparr>user_id = ''u1'', message = ''hello there''\<rparr> =
        (chatbot_agent, ''Respond to this student query: hello there'', ''A helpful response.'')"
proof -
  have none: "\<forall>c. \<not> category_matches (str_lower ''hello there'') c"
  proof
    fix c show "\<not> category_matches (str_lower ''hello there'') c"
      by (cases c) (simp_all add: lower_hello category_matches_code)
  qed
  with chat_fallback_when_no_keyword [of "\<lparr>user_id = ''u1'', message = ''hello there''\<rparr>" "''u1''"]
  show ?thesis by simp
qed

text \<open>
  C8. The task built for a message has as description the instruction template of the
  selected handler followed by the message exactly as it was sent (not its lower-cased
  form), the agent of that handler, and the expected-output string of that handler; the
  crew holds that agent and that task.
\<close>

theorem chat_task_embeds_message:
  "chat_task request =
     \<lparr>description = template (spec_classify (str_lower (message request))) @ message request,
      task_agent = profile (spec_classify (str_lower (message request))),
      expected_output = expected (spec_classify (str_lower (message request)))\<rparr>
   \<and> chat_crew request =
     \<lparr>agents = [profile (spec_classify (str_lower (message request)))],
      tasks = [chat_task request]\<rparr>"
  by (simp add: chat_task_def chat_crew_def chat_route_spec_classify spec_handler_def)

theorem chat_task_embeds_message_witness:
  "chat_task \<lparr>user_id = ''u1'', message = ''Explain ENTROPY''\<rparr> =
     \<lparr>description = ''Explain this academic concept: Explain ENTROPY'',
      task_agent = teacher_agent,
      expected_output = ''A clear and concise explanation of the topic.''\<rparr>"
proof -
  have "spec_classify (str_lower ''Explain ENTROPY'') = Some ConceptExplain"
    by (simp add: spec_classify_def priority_order_def category_matches_code lower_explain)
  with chat_task_embeds_message [of "\<lparr>user_id = ''u1'', message = ''Explain ENTROPY''\<rparr>"]
  show ?thesis by simp
qed

text \<open>
  C9. Two requests with the same message text get the same agent, task description and
  expected output, and so the same task and crew, whatever their user ids.
\<close>

theorem chat_task_independent_of_user:
  "message r1 = message r2 \<Longrightarrow>
     chat_route r1 = chat_route r2 \<and> chat_task r1 = chat_task r2 \<and> chat_crew r1 = chat_crew r2"
  by (simp add: chat_route_spec_classify chat_task_def chat_crew_def)

theorem chat_task_independent_of_user_witness:
  "message \<lparr>user_id = ''u1'', message = ''Explain ENTROPY''\<rparr> =
     message \<lparr>user_id = ''u2'', message = ''Explain ENTROPY''\<rparr>
   \<and> chat_task \<lparr>user_id = ''u1'', message = ''Explain ENTROPY''\<rparr> =
       chat_task \<lparr>user_id = ''u2'', message = ''Explain ENTROPY''\<rparr>
   \<and> chat_crew \<lparr>user_id = ''u1'', message = ''Explain ENTROPY''\<rparr> =
       chat_crew \<lparr>user_id = ''u2'', message = ''Explain ENTROPY''\<rparr>"
  using chat_task_independent_of_user
          [of "\<lparr>user_id = ''u1'', message = ''Explain ENTROPY''\<rparr>"
              "\<lparr>user_id = ''u2'', message = ''Explain ENTROPY''\<rparr>"]
  by simp

lemma matches_user_id:
  "matches [(''user_id'', Str uid)] d \<longleftrightarrow> map_of d ''user_id'' = Some (Str uid)"
  by (simp add: matches_def)

lemma matches_user_id_fun:
  "matches [(''user_id'', Str uid)] = (\<lambda>d. map_of d ''user_id'' = Some (Str uid))"
  by (rule ext) (simp add: matches_def)

section \<open>The conversation log\<close>

text \<open>
  C2. When \<^verbatim>\<open>chat\<close> returns a response, the crew run returned that text, and the collection
  is the old one followed by two documents of the requesting user: first role \<open>user\<close>
  with the message as sent, then role \<open>bot\<close> with the response. The history of that
  user is the old history followed by these two messages, two more than before.
\<close>

theorem chat_success_appends_pair:
  assumes "chat kickoff fault coll request = (Inr resp, coll')"
  shows "(\<exists>out. kickoff (chat_crew request) = Inr out \<and> response resp = raw out)
    \<and> docs coll' = docs coll @
         [[(''_id'', ObjectId (next_oid coll)), (''user_id'', Str (user_id request)),
           (''role'', Str ''user''), (''text'', Str (message request))],
          [(''_id'', ObjectId (Suc (next_oid coll))), (''user_id'', Str (user_id request)),
           (''role'', Str ''bot''), (''text'', Str (response resp))]]
    \<and> (\<exists>before.
          get_chat_history None coll (user_id request) =
            Inr \<lparr>history_user_id = user_id request, messages = before\<rparr>
        \<and> get_chat_history None coll' (user_id request) =
            Inr \<lparr>history_user_id = user_id request,
                 messages = before @
                   [[(''user_id'', Str (user_id request)), (''role'', Str ''user''),
                     (''text'', Str (message request))],
                    [(''user_id'', Str (user_id request)), (''role'', Str ''bot''),
                     (''text'', Str (response resp))]]\<rparr>
        \<and> length (before @
                   [[(''user_id'', Str (user_id request)), (''role'', Str ''user''),
                     (''text'', Str (message request))],
                    [(''user_id'', Str (user_id request)), (''role'', Str ''bot''),
                     (''text'', Str (response resp))]]) = length before + 2)"
proof -
  from assms obtain out where out: "kickoff (chat_crew request) = Inr out"
    by (cases "kickoff (chat_crew request)") (auto simp: chat_def)
  from assms out have fault: "fault = None"
    by (cases fault) (auto simp: chat_def Let_def insert_many_def)
  from assms out fault have resp: "response resp = raw out"
    by (auto simp: chat_def Let_def insert_many_def)
  from assms out fault have coll': "docs coll' = docs coll @
         [[(''_id'', ObjectId (next_oid coll)), (''user_id'', Str (user_id request)),
           (''role'', Str ''user''), (''text'', Str (message request))],
          [(''_id'', ObjectId (Suc (next_oid coll))), (''user_id'', Str (user_id request)),
           (''role'', Str ''bot''), (''text'', Str (response resp))]]"
    by (auto simp: chat_def Let_def insert_many_def)
  have hist: "get_chat_history None coll' (user_id request) =
            Inr \<lparr>history_user_id = user_id request,
                 messages = map (filter (\<lambda>(k, v). k \<notin> set [''_id'']))
                     (filter (matches [(''user_id'', Str (user_id request))]) (docs coll)) @
                   [[(''user_id'', Str (user_id request)), (''role'', Str ''user''),
                     (''text'', Str (message request))],
                    [(''user_id'', Str (user_id request)), (''role'', Str ''bot''),
                     (''text'', Str (response resp))]]\<rparr>"
    by (simp add: get_chat_history_def find_docs_def coll' matches_user_id)
  have before: "get_chat_history None coll (user_id request) =
            Inr \<lparr>history_user_id = user_id request,
                 messages = map (filter (\<lambda>(k, v). k \<notin> set [''_id'']))
                     (filter (matches [(''user_id'', Str (user_id request))]) (docs coll))\<rparr>"
    by (simp add: get_chat_history_def find_docs_def)
  from out resp coll' hist before show ?thesis by simp
qed

theorem chat_success_appends_pair_witness:
  "chat (fixed_reply ''Take a short break.'') None empty_collection
       \<lparr>user_id = ''u1'', message = ''I feel stressed about exams''\<rparr> =
     (Inr \<lparr>response = ''Take a short break.''\<rparr>,
      \<lparr>docs = [[(''_id'', ObjectId 0), (''user_id'', Str ''u1''), (''role'', Str ''user''),
                (''text'', Str ''I feel stressed about exams'')],
               [(''_id'', ObjectId 1), (''user_id'', Str ''u1''), (''role'', Str ''bot''),
                (''text'', Str ''Take a short break.'')]],
       next_oid = 2\<rparr>)
   \<and> get_chat_history None
       \<lparr>docs = [[(''_id'', ObjectId 0), (''user_id'', Str ''u1''), (''role'', Str ''user''),
                (''text'', Str ''I feel stressed about exams'')],
               [(''_id'', ObjectId 1), (''user_id'', Str ''u1''), (''role'', Str ''bot''),
                (''text'', Str ''Take a short break.'')]],
       next_oid = 2\<rparr> ''u1'' =
     Inr \<lparr>history_user_id = ''u1'',
          messages = [[(''user_id'', Str ''u1''), (''role'', Str ''user''),
                       (''text'', Str ''I feel stressed about exams'')],
                      [(''user_id'', Str ''u1''), (''role'', Str ''bot''),
                       (''text'', Str ''Take a short break.'')]]\<rparr>"
proof -
  have run: "chat (fixed_reply ''Take a short break.'') None empty_collection
       \<lparr>user_id = ''u1'', message = ''I feel stressed about exams''\<rparr> =
     (Inr \<lparr>response = ''Take a short break.''\<rparr>,
      \<lparr>docs = [[(''_id'', ObjectId 0), (''user_id'', Str ''u1''), (''role'', Str ''user''),
                (''text'', Str ''I feel stressed about exams'')],
               [(''_id'', ObjectId 1), (''user_id'', Str ''u1''), (''role'', Str ''bot''),
                (''text'', Str ''Take a short break.'')]],
       next_oid = 2\<rparr>)"
    by (simp add: chat_def Let_def fixed_reply_def insert_many_def empty_collection_def)
  from chat_success_appends_pair [OF run]
  have "\<exists>before.
          get_chat_history None empty_collection ''u1'' =
            Inr \<lparr>history_user_id = ''u1'', messages = before\<rparr>
        \<and> get_chat_history None
       \<lparr>docs = [[(''_id'', ObjectId 0), (''user_id'', Str ''u1''), (''role'', Str ''user''),
                (''text'', Str ''I feel stressed about exams'')],
               [(''_id'', ObjectId 1), (''user_id'', Str ''u1''), (''role'', Str ''bot''),
                (''text'', Str ''Take a short break.'')]],
       next_oid = 2\<rparr> ''u1'' =
            Inr \<lparr>history_user_id = ''u1'',
                 messages = before @
                   [[(''user_id'', Str ''u1''), (''role'', Str ''user''),
                     (''text'', Str ''I feel stressed about exams'')],
                    [(''user_id'', Str ''u1''), (''role'', Str ''bot''),
                     (''text'', Str ''Take a short break.'')]]\<rparr>"
    by simp
  moreover have "get_chat_history None empty_collection ''u1'' =
            Inr \<lparr>history_user_id = ''u1'', messages = []\<rparr>"
    by (simp add: get_chat_history_def find_docs_def empty_collection_def)
  ultimately show ?thesis using run by auto
qed

text \<open>
  C3. When the crew run raises, \<^verbatim>\<open>chat\<close> answers with a 500 carrying the text of the
  exception, and the collection is the one it was called with.
\<close>

theorem chat_dispatch_failure:
  "kickoff (chat_crew request) = Inl e \<Longrightarrow>
     chat kickoff fault coll request = (Inl (HTTPException 500 (str e)), coll)"
  by (simp add: chat_def)

theorem chat_dispatch_failure_witness:
  "failing_run ''model timed out'' (chat_crew \<lparr>user_id = ''u1'', message = ''hello there''\<rparr>) =
     Inl (PyException ''model timed out'')
   \<and> chat (failing_run ''model timed out'') None empty_collection
        \<lparr>user_id = ''u1'', message = ''hello there''\<rparr> =
      (Inl (HTTPException 500 ''model timed out''), empty_collection)"
proof -
  have fails: "failing_run ''model timed out'' (chat_crew \<lparr>user_id = ''u1'', message = ''hello there''\<rparr>) =
     Inl (PyException ''model timed out'')"
    by (simp add: failing_run_def)
  from chat_dispatch_failure
         [of "failing_run ''model timed out''" "\<lparr>user_id = ''u1'', message = ''hello there''\<rparr>"
             "PyException ''model timed out''" None empty_collection] fails
  show ?thesis by simp
qed

text \<open>
  C10. When the crew run returns and the store is reachable, \<^verbatim>\<open>chat\<close> succeeds with the
  raw text of the run as response and stores it as the bot message, whatever that text
  is; the empty text is stored and returned like any other.
\<close>

theorem chat_persists_raw_output:
  "kickoff (chat_crew request) = Inr out \<Longrightarrow>
     chat kickoff None coll request =
       (Inr \<lparr>response = raw out\<rparr>,
        \<lparr>docs = docs coll @
           [[(''_id'', ObjectId (next_oid coll)), (''user_id'', Str (user_id request)),
             (''role'', Str ''user''), (''text'', Str (message request))],
            [(''_id'', ObjectId (Suc (next_oid coll))), (''user_id'', Str (user_id request)),
             (''role'', Str ''bot''), (''text'', Str (raw out))]],
         next_oid = next_oid coll + 2\<rparr>)"
  by (simp add: chat_def Let_def insert_many_def)

theorem chat_persists_raw_output_witness:
  "fixed_reply '''' (chat_crew \<lparr>user_id = ''u1'', message = ''hello there''\<rparr>) = Inr \<lparr>raw = ''''\<rparr>
   \<and> chat (fixed_reply '''') None empty_collection \<lparr>user_id = ''u1'', message = ''hello there''\<rparr> =
       (Inr \<lparr>response = ''''\<rparr>,
        \<lparr>docs =
           [[(''_id'', ObjectId 0), (''user_id'', Str ''u1''),
             (''role'', Str ''user''), (''text'', Str ''hello there'')],
            [(''_id'', ObjectId 1), (''user_id'', Str ''u1''),
             (''role'', Str ''bot''), (''text'', Str '''')]],
         next_oid = 2\<rparr>)"
proof -
  have ok: "fixed_reply '''' (chat_crew \<lparr>user_id = ''u1'', message = ''hello there''\<rparr>) = Inr \<lparr>raw = ''''\<rparr>"
    by (simp add: fixed_reply_def)
  from chat_persists_raw_output
         [of "fixed_reply ''''" "\<lparr>user_id = ''u1'', message = ''hello there''\<rparr>"
             "\<lparr>raw = ''''\<rparr>" empty_collection] ok
  show ?thesis by (simp add: empty_collection_def)
qed

section \<open>The agents routing can select\<close>

lemma agents_distinct:
  "distinct [chatbot_agent, task_manager, stress_predictor, adaptive_scheduler,
             teacher_agent, motivator_agent]"
  by (simp add: chatbot_agent_def task_manager_def stress_predictor_def adaptive_scheduler_def
        teacher_agent_def motivator_agent_def)

text \<open>
  C5 fails as stated: the fallback branch (\<open>hello there\<close>) and the study-plan branch
  (\<open>plan my deadline\<close>) select the same agent, \<open>chatbot_agent\<close>; the fallback is not a
  profile of its own.
\<close>

theorem fallback_shares_general_assistant_counterexample:
  "chat_route \<lparr>user_id = ''u1'', message = ''hello there''\<rparr> =
     (chatbot_agent, ''Respond to this student query: hello there'', ''A helpful response.'')
   \<and> chat_route \<lparr>user_id = ''u1'', message = ''plan my deadline''\<rparr> =
     (chatbot_agent, ''Create a study schedule based on this request: plan my deadline'',
      ''A well-structured study plan.'')
   \<and> \<not> (fst (chat_route \<lparr>user_id = ''u1'', message = ''hello there''\<rparr>) \<noteq>
          fst (chat_route \<lparr>user_id = ''u1'', message = ''plan my deadline''\<rparr>))"
  by (simp add: chat_route_def lower_hello lower_plan)

text \<open>
  C5, amended. The module defines six agents, pairwise distinct: Study Assistant, Task
  Manager, Stress Predictor, Adaptive Scheduler, Teacher Bot and Motivator. For every
  message the selected agent is one of the five other than the Adaptive Scheduler, which
  no branch selects; the fallback branch selects the Study Assistant, the agent of the
  study-plan branch.
\<close>

theorem chat_selects_one_of_five_agents:
  "distinct [chatbot_agent, task_manager, stress_predictor, adaptive_scheduler,
             teacher_agent, motivator_agent]
   \<and> task_agent (chat_task request) \<in>
        {chatbot_agent, task_manager, stress_predictor, teacher_agent, motivator_agent}
   \<and> task_agent (chat_task request) \<noteq> adaptive_scheduler
   \<and> (spec_classify (str_lower (message request)) = None \<longrightarrow>
         task_agent (chat_task request) = chatbot_agent)
   \<and> (spec_classify (str_lower (message request)) = Some StudyPlan \<longrightarrow>
         task_agent (chat_task request) = chatbot_agent)"
proof -
  have sel: "task_agent (chat_task request) = profile (spec_classify (str_lower (message request)))"
    by (simp add: chat_task_def chat_route_spec_classify spec_handler_def)
  have five: "profile c \<in>
        {chatbot_agent, task_manager, stress_predictor, teacher_agent, motivator_agent}" for c
    by (cases c rule: profile.cases) simp_all
  have "profile c \<noteq> adaptive_scheduler" for c
    using agents_distinct by (cases c rule: profile.cases) auto
  with sel five [of "spec_classify (str_lower (message request))"] agents_distinct
  show ?thesis by simp
qed

theorem chat_selects_one_of_five_agents_witness:
  "spec_classify (str_lower ''hello there'') = None
   \<and> task_agent (chat_task \<lparr>user_id = ''u1'', message = ''hello there''\<rparr>) = chatbot_agent
   \<and> task_agent (chat_task \<lparr>user_id = ''u1'', message = ''hello there''\<rparr>)
        \<noteq> adaptive_scheduler"
proof -
  have none: "spec_classify (str_lower ''hello there'') = None"
    by (simp add: spec_classify_def priority_order_def category_matches_code lower_hello)
  with chat_selects_one_of_five_agents [of "\<lparr>user_id = ''u1'', message = ''hello there''\<rparr>"]
  show ?thesis by simp
qed

section \<open>Clearing and reading a history\<close>

lemma sample_collection_by_chat:
  "snd (chat (fixed_reply ''Here is a plan.'') None
         (snd (chat (fixed_reply ''hello'') None empty_collection
                 \<lparr>user_id = ''u1'', message = ''hi''\<rparr>))
         \<lparr>user_id = ''u2'', message = ''plan my week''\<rparr>) = sample_collection"
  by (simp add: chat_def Let_def fixed_reply_def insert_many_def empty_collection_def
        sample_collection_def)

text \<open>
  C6. With the store reachable, clearing a user whose history holds N messages reports
  \<open>deleted_count = N\<close>; the history of that user is then empty, and clearing again
  succeeds, reports zero and leaves the collection as it is. For a user with no messages
  the first call already reports zero and changes nothing.
\<close>

theorem delete_chat_history_count:
  "\<exists>ms coll'.
      get_chat_history None coll uid = Inr \<lparr>history_user_id = uid, messages = ms\<rparr>
    \<and> delete_chat_history None coll uid =
        (Inr \<lparr>delete_message = ''Chat history deleted successfully.'',
              deleted_count = length ms\<rparr>, coll')
    \<and> get_chat_history None coll' uid = Inr \<lparr>history_user_id = uid, messages = []\<rparr>
    \<and> delete_chat_history None coll' uid =
        (Inr \<lparr>delete_message = ''Chat history deleted successfully.'', deleted_count = 0\<rparr>,
         coll')
    \<and> (ms = [] \<longrightarrow> coll' = coll)"
proof -
  let ?q = "[(''user_id'', Str uid)]"
  let ?kept = "filter (\<lambda>d. \<not> matches ?q d) (docs coll)"
  have none: "filter (matches ?q) ?kept = []"
    by (simp add: filter_empty_conv)
  have again: "filter (\<lambda>d. \<not> matches ?q d) ?kept = ?kept"
    by simp
  have same: "filter (matches ?q) (docs coll) = [] \<longrightarrow> ?kept = docs coll"
    by (simp add: filter_empty_conv filter_id_conv)
  show ?thesis
    using none again same
    by (simp add: get_chat_history_def find_docs_def delete_chat_history_def delete_many_def)
qed

theorem delete_chat_history_count_witness:
  "delete_chat_history None sample_collection ''u1'' =
     (Inr \<lparr>delete_message = ''Chat history deleted successfully.'', deleted_count = 2\<rparr>,
      \<lparr>docs = [[(''_id'', ObjectId 2), (''user_id'', Str ''u2''), (''role'', Str ''user''),
                (''text'', Str ''plan my week'')],
               [(''_id'', ObjectId 3), (''user_id'', Str ''u2''), (''role'', Str ''bot''),
                (''text'', Str ''Here is a plan.'')]],
       next_oid = 4\<rparr>)
   \<and> fst (delete_chat_history None sample_collection ''nobody'') =
       Inr \<lparr>delete_message = ''Chat history deleted successfully.'', deleted_count = 0\<rparr>"
proof -
  have hist: "get_chat_history None sample_collection ''u1'' =
      Inr \<lparr>history_user_id = ''u1'',
           messages = [[(''user_id'', Str ''u1''), (''role'', Str ''user''), (''text'', Str ''hi'')],
                       [(''user_id'', Str ''u1''), (''role'', Str ''bot''),
                        (''text'', Str ''hello'')]]\<rparr>"
    by (simp add: get_chat_history_def find_docs_def sample_collection_def matches_def)
  have nobody: "get_chat_history None sample_collection ''nobody'' =
      Inr \<lparr>history_user_id = ''nobody'', messages = []\<rparr>"
    by (simp add: get_chat_history_def find_docs_def sample_collection_def matches_def)
  have kept: "snd (delete_chat_history None sample_collection ''u1'') =
      \<lparr>docs = [[(''_id'', ObjectId 2), (''user_id'', Str ''u2''), (''role'', Str ''user''),
                (''text'', Str ''plan my week'')],
               [(''_id'', ObjectId 3), (''user_id'', Str ''u2''), (''role'', Str ''bot''),
                (''text'', Str ''Here is a plan.'')]],
       next_oid = 4\<rparr>"
    by (simp add: delete_chat_history_def delete_many_def sample_collection_def matches_def)
  from delete_chat_history_count [of sample_collection "''u1''"] hist
  have "fst (delete_chat_history None sample_collection ''u1'') =
      Inr \<lparr>delete_message = ''Chat history deleted successfully.'', deleted_count = 2\<rparr>"
    by auto
  moreover from delete_chat_history_count [of sample_collection "''nobody''"] nobody
  have "fst (delete_chat_history None sample_collection ''nobody'') =
      Inr \<lparr>delete_message = ''Chat history deleted successfully.'', deleted_count = 0\<rparr>"
    by auto
  ultimately show ?thesis using kept by (simp add: prod_eq_iff)
qed

lemma wf_empty_collection: "wf_collection empty_collection"
  by (simp add: wf_collection_def empty_collection_def)

lemma chat_preserves_wf:
  "wf_collection coll \<Longrightarrow> wf_collection (snd (chat kickoff fault coll request))"
  by (auto simp: chat_def Let_def insert_many_def wf_collection_def wf_doc_def
      split: sum.splits option.splits)

lemma delete_preserves_wf:
  "wf_collection coll \<Longrightarrow> wf_collection (snd (delete_chat_history fault coll uid))"
  by (auto simp: delete_chat_history_def delete_many_def wf_collection_def list_all_iff
      split: option.splits)

lemma keys_without_id:
  "map fst (filter (\<lambda>(k, v). k \<notin> set [''_id'']) d) = filter (\<lambda>k. k \<noteq> ''_id'') (map fst d)"
  by (induction d) auto

lemma user_id_without_id:
  "map_of (filter (\<lambda>(k, v). k \<notin> set [''_id'']) d) ''user_id'' = map_of d ''user_id''"
  by (induction d) auto

text \<open>
  C7 fails as stated: after one exchange of user \<open>u1\<close>, each message of the history has
  the three fields \<^verbatim>\<open>user_id\<close>, \<^verbatim>\<open>role\<close> and \<^verbatim>\<open>text\<close>; the projection removes \<^verbatim>\<open>_id\<close>
  only.
\<close>

theorem get_chat_history_fields_counterexample:
  "get_chat_history None
      (snd (chat (fixed_reply ''hello'') None empty_collection
              \<lparr>user_id = ''u1'', message = ''hi''\<rparr>)) ''u1'' =
     Inr \<lparr>history_user_id = ''u1'',
          messages = [[(''user_id'', Str ''u1''), (''role'', Str ''user''), (''text'', Str ''hi'')],
                      [(''user_id'', Str ''u1''), (''role'', Str ''bot''),
                       (''text'', Str ''hello'')]]\<rparr>
   \<and> map fst [(''user_id'', Str ''u1''), (''role'', Str ''user''), (''text'', Str ''hi'')]
        \<noteq> [''role'', ''text'']"
  by (simp add: chat_def Let_def fixed_reply_def insert_many_def empty_collection_def
        get_chat_history_def find_docs_def matches_def)

text \<open>
  C7, amended. With the store reachable, the history of a user is \<open>{user_id, messages}\<close>
  where \<open>messages\<close> are all stored documents of that user, in stored order, without
  their \<^verbatim>\<open>_id\<close>; in a well-formed collection each has exactly the fields \<^verbatim>\<open>user_id\<close>,
  \<^verbatim>\<open>role\<close> and \<^verbatim>\<open>text\<close>, with that user's id. A user with no documents gets the empty
  list, not an error.
\<close>

theorem get_chat_history_returns_log:
  assumes "wf_collection coll"
  shows "\<exists>ms.
      get_chat_history None coll uid = Inr \<lparr>history_user_id = uid, messages = ms\<rparr>
    \<and> ms = map (filter (\<lambda>(k, v). k \<noteq> ''_id''))
              (filter (\<lambda>d. map_of d ''user_id'' = Some (Str uid)) (docs coll))
    \<and> (\<forall>m \<in> set ms. map fst m = [''user_id'', ''role'', ''text'']
                      \<and> map_of m ''user_id'' = Some (Str uid))
    \<and> ((\<forall>d \<in> set (docs coll). map_of d ''user_id'' \<noteq> Some (Str uid)) \<longrightarrow> ms = [])"
proof -
  let ?ms = "map (filter (\<lambda>(k, v). k \<notin> set [''_id'']))
               (filter (matches [(''user_id'', Str uid)]) (docs coll))"
  have res: "get_chat_history None coll uid = Inr \<lparr>history_user_id = uid, messages = ?ms\<rparr>"
    by (simp add: get_chat_history_def find_docs_def)
  have eq: "?ms = map (filter (\<lambda>(k, v). k \<noteq> ''_id''))
              (filter (\<lambda>d. map_of d ''user_id'' = Some (Str uid)) (docs coll))"
    by (simp add: matches_user_id_fun)
  have fields: "map fst m = [''user_id'', ''role'', ''text''] \<and> map_of m ''user_id'' = Some (Str uid)"
    if "m \<in> set ?ms" for m
  proof -
    from that obtain d where d: "d \<in> set (docs coll)" "matches [(''user_id'', Str uid)] d"
      and m: "m = filter (\<lambda>(k, v). k \<notin> set [''_id'']) d"
      by auto
    from assms d have "map fst d = [''_id'', ''user_id'', ''role'', ''text'']"
      by (simp add: wf_collection_def wf_doc_def list_all_iff)
    then have "map fst m = [''user_id'', ''role'', ''text'']"
      unfolding m keys_without_id by simp
    moreover from d have "map_of m ''user_id'' = Some (Str uid)"
      unfolding m user_id_without_id by (simp add: matches_def)
    ultimately show ?thesis by simp
  qed
  have empty: "?ms = []" if "\<forall>d \<in> set (docs coll). map_of d ''user_id'' \<noteq> Some (Str uid)"
    using that by (simp add: filter_empty_conv matches_def)
  from res eq fields empty show ?thesis by (metis (no_types, lifting))
qed

theorem get_chat_history_returns_log_witness:
  "wf_collection sample_collection
   \<and> get_chat_history None sample_collection ''u2'' =
       Inr \<lparr>history_user_id = ''u2'',
            messages = [[(''user_id'', Str ''u2''), (''role'', Str ''user''),
                         (''text'', Str ''plan my week'')],
                        [(''user_id'', Str ''u2''), (''role'', Str ''bot''),
                         (''text'', Str ''Here is a plan.'')]]\<rparr>
   \<and> get_chat_history None sample_collection ''nobody'' =
       Inr \<lparr>history_user_id = ''nobody'', messages = []\<rparr>"
proof -
  have wf: "wf_collection sample_collection"
    by (simp add: wf_collection_def wf_doc_def sample_collection_def)
  from get_chat_history_returns_log [OF wf, of "''u2''"]
  have u2: "get_chat_history None sample_collection ''u2'' =
       Inr \<lparr>history_user_id = ''u2'',
            messages = [[(''user_id'', Str ''u2''), (''role'', Str ''user''),
                         (''text'', Str ''plan my week'')],
                        [(''user_id'', Str ''u2''), (''role'', Str ''bot''),
                         (''text'', Str ''Here is a plan.'')]]\<rparr>"
    by (simp add: sample_collection_def)
  from get_chat_history_returns_log [OF wf, of "''nobody''"]
  have "get_chat_history None sample_collection ''nobody'' =
       Inr \<lparr>history_user_id = ''nobody'', messages = []\<rparr>"
    by (simp add: sample_collection_def)
  with wf u2 show ?thesis by simp
qed

end
